theory Spec2Isabelle
  imports Complex_Main "HOL-Library.Multiset" "HOL-Library.Sublist"
begin

section \<open>Values, requests and the remote data client\<close>

text \<open>
  The views talk to the hosted store through one query client. Every call is
  \<^verbatim>\<open>await supabase.from(table). ... \<close> and either resolves to an object
  \<^verbatim>\<open>{ data, error }\<close> or throws. The views read the failure of a call from the
  \<^verbatim>\<open>error\<close> field (\<^verbatim>\<open>if (error) throw error\<close>) and wrap the calls in
  \<^verbatim>\<open>try / catch\<close>, so both outcomes are part of the model.
\<close>

datatype jsval = JStr string | JNum int | JBool bool | JNull | JUndefined

text \<open>An object literal sent as a row: its keys with their values.\<close>

type_synonym payload = "(string \<times> jsval) list"

text \<open>\<^verbatim>\<open>{ ...obj, key: v }\<close>: the key is overwritten where it exists, added otherwise.\<close>

fun obj_set :: "payload \<Rightarrow> string \<Rightarrow> jsval \<Rightarrow> payload" where
  "obj_set [] k v = [(k, v)]"
| "obj_set ((k', v') # kvs) k v =
     (if k' = k then (k, v) # kvs else (k', v') # obj_set kvs k v)"

text \<open>\<^verbatim>\<open>.eq(column, value)\<close>, and \<^verbatim>\<open>.or(`c1.eq.v1,c2.eq.v2`)\<close> as the events and
  blog views use it.\<close>

datatype filter_q =
    Eq string jsval
  | Or_eq string jsval string jsval

datatype request =
    Select string filter_q string bool
  | Insert string "payload list" bool
  | Update string payload filter_q
  | Delete string filter_q

record 'd response =
  data :: "'d option"
  error :: "string option"

datatype 'd awaited = Resolved "'d response" | Rejected string

text \<open>
  The store itself is outside the repository: a backend is any function that answers a
  request in a remote state \<open>'r\<close> and returns the next remote state.
\<close>

type_synonym ('d, 'r) backend = "request \<Rightarrow> 'r \<Rightarrow> 'd awaited \<times> 'r"

text \<open>
  The notifications of the views, by their titles in the source: "Fehler beim Laden" and
  "Fehler" carry the message of the error, as do "Fehler beim Laden der Events" and "Fehler
  beim Laden der Blog Posts"; "Erfolgreich aktualisiert" and "Erfolgreich
  erstellt"; the two titles of toggleComplete and of toggleFavorite, chosen by the flag
  before the toggle, with the title of the record; "Keine Ideen gefunden"; the random idea
  with its title and category; "Layout konnte nicht gespeichert werden", "Layout
  zurueckgesetzt" and "Layout konnte nicht zurueckgesetzt werden".
\<close>

datatype toast =
    Toast_load_error string
  | Toast_events_load_error string
  | Toast_posts_load_error string
  | Toast_error string
  | Toast_updated
  | Toast_created
  | Toast_marked bool string
  | Toast_favorite bool string
  | Toast_no_ideas
  | Toast_random_idea string string
  | Toast_layout_not_saved
  | Toast_layout_reset
  | Toast_layout_not_reset

text \<open>What a handler leaves behind outside its component: the remote state, the calls it
  made in order, the notifications shown and the lines written to the console.\<close>

record 'r world =
  remote :: 'r
  calls :: "request list"
  toasts :: "toast list"
  console :: "string list"

definition await_call :: "('d, 'r) backend \<Rightarrow> request \<Rightarrow> 'r world \<Rightarrow> 'd awaited \<times> 'r world" where
  "await_call be q w =
     (case be q (remote w) of
        (out, r') \<Rightarrow> (out, w\<lparr>remote := r', calls := calls w @ [q]\<rparr>))"

definition show_toast :: "toast \<Rightarrow> 'r world \<Rightarrow> 'r world" where
  "show_toast t w = w\<lparr>toasts := toasts w @ [t]\<rparr>"

definition console_error :: "string \<Rightarrow> 'r world \<Rightarrow> 'r world" where
  "console_error s w = w\<lparr>console := console w @ [s]\<rparr>"

record user =
  id_u :: string

text \<open>\<^verbatim>\<open>user?.id\<close>: undefined when nobody is signed in.\<close>

definition user_id :: "user option \<Rightarrow> jsval" where
  "user_id u = (case u of None \<Rightarrow> JUndefined | Some x \<Rightarrow> JStr (id_u x))"

section \<open>Array.prototype.splice\<close>

text \<open>
  \<^verbatim>\<open>xs.splice(start, deleteCount, ...items)\<close>: a negative start counts from the end,
  a start beyond the end is the end, and the delete count is cut to what is left.
  The result is the removed elements and the array after the call.
\<close>

definition splice_start :: "int \<Rightarrow> nat \<Rightarrow> nat" where
  "splice_start start len =
     (if start < 0 then nat (max (int len + start) 0) else min (nat start) len)"

definition splice_js :: "'a list \<Rightarrow> int \<Rightarrow> int \<Rightarrow> 'a list \<Rightarrow> 'a list \<times> 'a list" where
  "splice_js xs start deleteCount items =
     (let s = splice_start start (length xs);
          dc = min (nat (max deleteCount 0)) (length xs - s)
      in (take dc (drop s xs), take s xs @ items @ drop (s + dc) xs))"

section \<open>Dashboard layout (component Apps)\<close>

datatype widget_size = Small | Medium | Large

record DashboardWidget =
  id_w :: string
  widget_type :: string
  position :: int
  is_active :: bool
  size_w :: widget_size

record catalog_entry =
  id_c :: string
  title_c :: string

definition AVAILABLE_WIDGETS :: "catalog_entry list" where
  "AVAILABLE_WIDGETS =
     [\<lparr>id_c = ''bucket-list'', title_c = ''Meine Bucket List''\<rparr>,
      \<lparr>id_c = ''dating-journal'', title_c = ''Dating Journal''\<rparr>,
      \<lparr>id_c = ''dating-ideas'', title_c = ''Dating Ideen''\<rparr>,
      \<lparr>id_c = ''dating-app'', title_c = ''Dating App''\<rparr>]"

record apps_state =
  layout :: "DashboardWidget list"
  loading :: bool

record DraggableLocation =
  index :: int

record DropResult =
  source :: DraggableLocation
  destination :: "DraggableLocation option"

text \<open>\<^verbatim>\<open>xs.map((item, index) => ({ ...item, position: index }))\<close>\<close>

definition with_positions :: "DashboardWidget list \<Rightarrow> DashboardWidget list" where
  "with_positions xs = map (\<lambda>(index, item). item\<lparr>position := int index\<rparr>) (enumerate 0 xs)"

text \<open>
  Lines 552 to 560 of handleDragEnd. When the source index is past the end, splice removes
  nothing and \<^verbatim>\<open>reorderedItem\<close> is undefined; the entry the source then writes,
  \<^verbatim>\<open>{ position: index }\<close>, is not a DashboardWidget, and the model answers \<open>None\<close>.
\<close>

definition updatedLayout :: "DashboardWidget list \<Rightarrow> int \<Rightarrow> int \<Rightarrow> DashboardWidget list option" where
  "updatedLayout lay src dst =
     (case splice_js lay src 1 [] of
        (removed, newLayout) \<Rightarrow>
          (case removed of
             [] \<Rightarrow> None
           | reorderedItem # _ \<Rightarrow>
               Some (with_positions (snd (splice_js newLayout dst 0 [reorderedItem])))))"

definition save_position :: "DashboardWidget \<Rightarrow> request" where
  "save_position widget =
     Update ''dashboard_layout'' [(''position'', JNum (position widget))]
       (Eq ''id'' (JStr (id_w widget)))"

text \<open>The loop of the try block: one awaited call per row, whose result is not read. A call
  that throws ends the loop with the exception.\<close>

fun save_updates ::
  "(DashboardWidget list, 'r) backend \<Rightarrow> DashboardWidget list \<Rightarrow> 'r world \<Rightarrow> string option \<times> 'r world" where
  "save_updates be [] w = (None, w)"
| "save_updates be (u # us) w =
     (case await_call be (save_position u) w of
        (Rejected e, w') \<Rightarrow> (Some e, w')
      | (Resolved _, w') \<Rightarrow> save_updates be us w')"

datatype drag_error = Undefined_item

definition handleDragEnd ::
  "(DashboardWidget list, 'r) backend \<Rightarrow> apps_state \<Rightarrow> DropResult \<Rightarrow> 'r world
     \<Rightarrow> drag_error + apps_state \<times> 'r world" where
  "handleDragEnd be st result w =
     (case destination result of
        None \<Rightarrow> Inr (st, w)
      | Some dest \<Rightarrow>
          (case updatedLayout (layout st) (index (source result)) (index dest) of
             None \<Rightarrow> Inl Undefined_item
           | Some lay \<Rightarrow>
               (case save_updates be lay w of
                  (None, w') \<Rightarrow> Inr (st\<lparr>layout := lay\<rparr>, w')
                | (Some e, w') \<Rightarrow>
                    Inr (st\<lparr>layout := lay\<rparr>,
                         show_toast Toast_layout_not_saved
                           (console_error ''Error saving layout:'' w')))))"

text \<open>The row objects built by createDefaultLayout, one per catalog entry.\<close>

definition defaultWidgets :: "user option \<Rightarrow> payload list" where
  "defaultWidgets u =
     map (\<lambda>(index, widget).
            [(''widget_type'', JStr (id_c widget)),
             (''position'', JNum (int index)),
             (''is_active'', JBool True),
             (''size'', JStr ''medium''),
             (''user_id'', user_id u)])
         (enumerate 0 AVAILABLE_WIDGETS)"

definition createDefaultLayout ::
  "(DashboardWidget list, 'r) backend \<Rightarrow> user option \<Rightarrow> apps_state \<Rightarrow> 'r world
     \<Rightarrow> apps_state \<times> 'r world" where
  "createDefaultLayout be u st w =
     (case await_call be (Insert ''dashboard_layout'' (defaultWidgets u) True) w of
        (Rejected e, w') \<Rightarrow> (st, console_error ''Error creating default layout:'' w')
      | (Resolved res, w') \<Rightarrow>
          (case error res of
             Some e \<Rightarrow> (st, console_error ''Error creating default layout:'' w')
           | None \<Rightarrow>
               (st\<lparr>layout := (case data res of None \<Rightarrow> [] | Some rows \<Rightarrow> rows)\<rparr>, w')))"



definition resetLayout ::
  "(DashboardWidget list, 'r) backend \<Rightarrow> user option \<Rightarrow> apps_state \<Rightarrow> 'r world
     \<Rightarrow> apps_state \<times> 'r world" where
  "resetLayout be u st w =
     (case await_call be (Delete ''dashboard_layout'' (Eq ''user_id'' (user_id u))) w of
        (Rejected e, w') \<Rightarrow>
          (st, show_toast Toast_layout_not_reset (console_error ''Error resetting layout:'' w'))
      | (Resolved _, w') \<Rightarrow>
          (case createDefaultLayout be u st w' of
             (st', w'') \<Rightarrow> (st', show_toast Toast_layout_reset w'')))"

subsection \<open>A store for the table dashboard_layout\<close>

text \<open>
  Modelled from the spec: the remote data collaborator (the client under
  \<^verbatim>\<open>@/integrations/supabase\<close> and the hosted table behind it) is not part of the
  sources. Section 6 of the specification describes it as a generic query and mutation
  client over named tables whose rows are scoped by the user identifier; section 3 says
  that nothing enforces unique or dense positions on the server. The store below keeps the
  rows of \<^verbatim>\<open>dashboard_layout\<close> with their owner, answers the four kinds of
  request the dashboard sends, and fails on demand: each call takes the next entry of a
  script, which says whether the call succeeds, resolves with an error, or throws.
\<close>

datatype fault = Succeed | Fail_response string | Fail_throw string

record dashboard_store =
  table :: "(jsval \<times> DashboardWidget) list"
  script :: "fault list"
  fresh_ids :: "string list"

definition size_of_jsval :: "jsval option \<Rightarrow> widget_size" where
  "size_of_jsval v =
     (if v = Some (JStr ''small'') then Small
      else if v = Some (JStr ''large'') then Large
      else Medium)"

definition row_of_payload :: "string \<Rightarrow> payload \<Rightarrow> jsval \<times> DashboardWidget" where
  "row_of_payload i p =
     (case map_of p ''user_id'' of None \<Rightarrow> JNull | Some v \<Rightarrow> v,
      \<lparr>id_w = i,
       widget_type = (case map_of p ''widget_type'' of Some (JStr t) \<Rightarrow> t | _ \<Rightarrow> []),
       position = (case map_of p ''position'' of Some (JNum n) \<Rightarrow> n | _ \<Rightarrow> 0),
       is_active = (case map_of p ''is_active'' of Some (JBool b) \<Rightarrow> b | _ \<Rightarrow> True),
       size_w = size_of_jsval (map_of p ''size'')\<rparr>)"

definition set_columns :: "payload \<Rightarrow> DashboardWidget \<Rightarrow> DashboardWidget" where
  "set_columns p row =
     (case map_of p ''position'' of Some (JNum n) \<Rightarrow> row\<lparr>position := n\<rparr> | _ \<Rightarrow> row)"

definition column :: "string \<Rightarrow> jsval \<times> DashboardWidget \<Rightarrow> jsval" where
  "column c r =
     (if c = ''user_id'' then fst r
      else if c = ''id'' then JStr (id_w (snd r))
      else if c = ''widget_type'' then JStr (widget_type (snd r))
      else if c = ''position'' then JNum (position (snd r))
      else if c = ''is_active'' then JBool (is_active (snd r))
      else if c = ''size'' then
        JStr (case size_w (snd r) of Small \<Rightarrow> ''small'' | Medium \<Rightarrow> ''medium''
              | Large \<Rightarrow> ''large'')
      else JUndefined)"

fun row_matches :: "filter_q \<Rightarrow> jsval \<times> DashboardWidget \<Rightarrow> bool" where
  "row_matches (Eq c v) r = (column c r = v)"
| "row_matches (Or_eq c1 v1 c2 v2) r = (column c1 r = v1 \<or> column c2 r = v2)"

definition run_request ::
  "request \<Rightarrow> dashboard_store \<Rightarrow> DashboardWidget list option \<times> dashboard_store" where
  "run_request q s =
     (case q of
        Select t f col asc \<Rightarrow>
          (Some (sort_key position (map snd (filter (row_matches f) (table s)))), s)
      | Insert t rows returning \<Rightarrow>
          (let new = map (\<lambda>(i, p). row_of_payload i p) (zip (fresh_ids s) rows)
           in (if returning then Some (map snd new) else None,
               s\<lparr>table := table s @ new, fresh_ids := drop (length rows) (fresh_ids s)\<rparr>))
      | Update t p f \<Rightarrow>
          (None,
           s\<lparr>table :=
               map (\<lambda>r. if row_matches f r then (fst r, set_columns p (snd r)) else r) (table s)\<rparr>)
      | Delete t f \<Rightarrow>
          (None, s\<lparr>table := filter (\<lambda>r. \<not> row_matches f r) (table s)\<rparr>))"

definition dashboard_backend :: "(DashboardWidget list, dashboard_store) backend" where
  "dashboard_backend q s =
     (case script s of
        [] \<Rightarrow> (case run_request q s of (d, s') \<Rightarrow> (Resolved \<lparr>data = d, error = None\<rparr>, s'))
      | f # fs \<Rightarrow>
          (case f of
             Succeed \<Rightarrow>
               (case run_request q (s\<lparr>script := fs\<rparr>) of
                  (d, s') \<Rightarrow> (Resolved \<lparr>data = d, error = None\<rparr>, s'))
           | Fail_response m \<Rightarrow> (Resolved \<lparr>data = None, error = Some m\<rparr>, s\<lparr>script := fs\<rparr>)
           | Fail_throw m \<Rightarrow> (Rejected m, s\<lparr>script := fs\<rparr>)))"

definition new_world :: "'r \<Rightarrow> 'r world" where
  "new_world r = \<lparr>remote = r, calls = [], toasts = [], console = []\<rparr>"

definition other_fields :: "DashboardWidget \<Rightarrow> string \<times> string \<times> bool \<times> widget_size" where
  "other_fields x = (id_w x, widget_type x, is_active x, size_w x)"

section \<open>Bucket list (BucketListApp)\<close>

record BucketListItem =
  id_b :: string
  title_b :: string
  description_b :: string
  category_b :: string
  is_completed :: bool
  target_date :: "string option"
  created_at_b :: string

record bucket_form =
  title_bf :: string
  description_bf :: string
  category_bf :: string
  target_date_bf :: string

record bucket_state =
  items :: "BucketListItem list"
  loading_b :: bool
  isDialogOpen_b :: bool
  editingItem :: "BucketListItem option"
  formData_b :: bucket_form

definition empty_bucket_form :: bucket_form where
  "empty_bucket_form =
     \<lparr>title_bf = [], description_bf = [], category_bf = [], target_date_bf = []\<rparr>"

text \<open>The state the component starts with (the arguments of its useState calls).\<close>

definition initial_bucket_state :: bucket_state where
  "initial_bucket_state =
     \<lparr>items = [], loading_b = True, isDialogOpen_b = False, editingItem = None,
      formData_b = empty_bucket_form\<rparr>"

definition fetchItems ::
  "(BucketListItem list, 'r) backend \<Rightarrow> user option \<Rightarrow> bucket_state \<Rightarrow> 'r world
     \<Rightarrow> bucket_state \<times> 'r world" where
  "fetchItems be u st w =
     (case await_call be
             (Select ''bucket_list_items'' (Eq ''user_id'' (user_id u)) ''created_at'' False) w of
        (Rejected e, w') \<Rightarrow>
          (st\<lparr>loading_b := False\<rparr>, console_error ''Error fetching bucket list items:'' w')
      | (Resolved res, w') \<Rightarrow>
          (case error res of
             Some m \<Rightarrow> (st\<lparr>loading_b := False\<rparr>, show_toast (Toast_load_error m) w')
           | None \<Rightarrow>
               (st\<lparr>items := (case data res of None \<Rightarrow> [] | Some xs \<Rightarrow> xs),
                   loading_b := False\<rparr>, w')))"

text \<open>\<^verbatim>\<open>{ ...formData, user_id: user?.id, target_date: formData.target_date || null }\<close>\<close>

definition itemData :: "user option \<Rightarrow> bucket_form \<Rightarrow> payload" where
  "itemData u fd =
     obj_set
       (obj_set
          [(''title'', JStr (title_bf fd)),
           (''description'', JStr (description_bf fd)),
           (''category'', JStr (category_bf fd)),
           (''target_date'', JStr (target_date_bf fd))]
          ''user_id'' (user_id u))
       ''target_date'' (if target_date_bf fd = [] then JNull else JStr (target_date_bf fd))"

text \<open>A write inside a try block: the call throws, or resolves with an error that the
  handler throws itself; either way the catch block receives the message.\<close>

definition thrown :: "'d awaited \<Rightarrow> string option" where
  "thrown out = (case out of Rejected e \<Rightarrow> Some e | Resolved res \<Rightarrow> error res)"

definition handleSubmit_b ::
  "(BucketListItem list, 'r) backend \<Rightarrow> user option \<Rightarrow> bucket_state \<Rightarrow> 'r world
     \<Rightarrow> bucket_state \<times> 'r world" where
  "handleSubmit_b be u st w =
     (let q = (case editingItem st of
                 Some it \<Rightarrow>
                   Update ''bucket_list_items'' (itemData u (formData_b st))
                     (Eq ''id'' (JStr (id_b it)))
               | None \<Rightarrow> Insert ''bucket_list_items'' [itemData u (formData_b st)] False)
      in case await_call be q w of
           (out, w') \<Rightarrow>
             (case thrown out of
                Some m \<Rightarrow> (st, show_toast (Toast_error m) w')
              | None \<Rightarrow>
                  fetchItems be u
                    (st\<lparr>formData_b := empty_bucket_form, editingItem := None,
                        isDialogOpen_b := False\<rparr>)
                    (show_toast (if editingItem st = None then Toast_created else Toast_updated)
                       w')))"

definition toggleComplete ::
  "(BucketListItem list, 'r) backend \<Rightarrow> user option \<Rightarrow> BucketListItem \<Rightarrow> bucket_state
     \<Rightarrow> 'r world \<Rightarrow> bucket_state \<times> 'r world" where
  "toggleComplete be u item st w =
     (case await_call be
             (Update ''bucket_list_items'' [(''is_completed'', JBool (\<not> is_completed item))]
                (Eq ''id'' (JStr (id_b item)))) w of
        (out, w') \<Rightarrow>
          (case thrown out of
             Some m \<Rightarrow> (st, show_toast (Toast_error m) w')
           | None \<Rightarrow>
               fetchItems be u st
                 (show_toast (Toast_marked (is_completed item) (title_b item)) w')))"

section \<open>Dating journal (DatingJournalApp)\<close>

record DatingJournalEntry =
  id_j :: string
  person_name :: string
  date_j :: string
  location_j :: string
  experience_rating :: int
  notes_j :: string
  will_see_again :: "bool option"
  created_at_j :: string

record journal_form =
  person_name_jf :: string
  date_jf :: string
  location_jf :: string
  experience_rating_jf :: int
  notes_jf :: string
  will_see_again_jf :: "bool option"

record journal_state =
  entries :: "DatingJournalEntry list"
  loading_j :: bool
  isDialogOpen_j :: bool
  editingEntry :: "DatingJournalEntry option"
  formData_j :: journal_form

definition empty_journal_form :: journal_form where
  "empty_journal_form =
     \<lparr>person_name_jf = [], date_jf = [], location_jf = [], experience_rating_jf = 5,
      notes_jf = [], will_see_again_jf = None\<rparr>"


definition fetchEntries ::
  "(DatingJournalEntry list, 'r) backend \<Rightarrow> user option \<Rightarrow> journal_state \<Rightarrow> 'r world
     \<Rightarrow> journal_state \<times> 'r world" where
  "fetchEntries be u st w =
     (case await_call be
             (Select ''dating_journal_entries'' (Eq ''user_id'' (user_id u)) ''date'' False) w of
        (Rejected e, w') \<Rightarrow>
          (st\<lparr>loading_j := False\<rparr>, console_error ''Error fetching dating journal entries:'' w')
      | (Resolved res, w') \<Rightarrow>
          (case error res of
             Some m \<Rightarrow> (st\<lparr>loading_j := False\<rparr>, show_toast (Toast_load_error m) w')
           | None \<Rightarrow>
               (st\<lparr>entries := (case data res of None \<Rightarrow> [] | Some xs \<Rightarrow> xs),
                   loading_j := False\<rparr>, w')))"

definition entryData :: "user option \<Rightarrow> journal_form \<Rightarrow> payload" where
  "entryData u fd =
     obj_set
       [(''person_name'', JStr (person_name_jf fd)),
        (''date'', JStr (date_jf fd)),
        (''location'', JStr (location_jf fd)),
        (''experience_rating'', JNum (experience_rating_jf fd)),
        (''notes'', JStr (notes_jf fd)),
        (''will_see_again'', case will_see_again_jf fd of None \<Rightarrow> JNull | Some b \<Rightarrow> JBool b)]
       ''user_id'' (user_id u)"

definition handleSubmit_j ::
  "(DatingJournalEntry list, 'r) backend \<Rightarrow> user option \<Rightarrow> journal_state \<Rightarrow> 'r world
     \<Rightarrow> journal_state \<times> 'r world" where
  "handleSubmit_j be u st w =
     (let q = (case editingEntry st of
                 Some it \<Rightarrow>
                   Update ''dating_journal_entries'' (entryData u (formData_j st))
                     (Eq ''id'' (JStr (id_j it)))
               | None \<Rightarrow> Insert ''dating_journal_entries'' [entryData u (formData_j st)] False)
      in case await_call be q w of
           (out, w') \<Rightarrow>
             (case thrown out of
                Some m \<Rightarrow> (st, show_toast (Toast_error m) w')
              | None \<Rightarrow>
                  fetchEntries be u
                    (st\<lparr>formData_j := empty_journal_form, editingEntry := None,
                        isDialogOpen_j := False\<rparr>)
                    (show_toast (if editingEntry st = None then Toast_created else Toast_updated)
                       w')))"

section \<open>Dating ideas (DatingIdeasApp)\<close>

record DatingIdea =
  id_i :: string
  title_i :: string
  description_i :: string
  category_i :: string
  estimated_cost :: string
  estimated_duration :: string
  location_type :: string
  is_favorite :: bool
  created_at_i :: string

record idea_form =
  title_if :: string
  description_if :: string
  category_if :: string
  estimated_cost_if :: string
  estimated_duration_if :: string
  location_type_if :: string

record ideas_state =
  ideas :: "DatingIdea list"
  loading_i :: bool
  isDialogOpen_i :: bool
  editingIdea :: "DatingIdea option"
  categoryFilter_i :: string
  formData_i :: idea_form

definition empty_idea_form :: idea_form where
  "empty_idea_form =
     \<lparr>title_if = [], description_if = [], category_if = [], estimated_cost_if = [],
      estimated_duration_if = [], location_type_if = []\<rparr>"


definition fetchIdeas ::
  "(DatingIdea list, 'r) backend \<Rightarrow> user option \<Rightarrow> ideas_state \<Rightarrow> 'r world
     \<Rightarrow> ideas_state \<times> 'r world" where
  "fetchIdeas be u st w =
     (case await_call be
             (Select ''dating_ideas'' (Eq ''user_id'' (user_id u)) ''created_at'' False) w of
        (Rejected e, w') \<Rightarrow>
          (st\<lparr>loading_i := False\<rparr>, console_error ''Error fetching dating ideas:'' w')
      | (Resolved res, w') \<Rightarrow>
          (case error res of
             Some m \<Rightarrow> (st\<lparr>loading_i := False\<rparr>, show_toast (Toast_load_error m) w')
           | None \<Rightarrow>
               (st\<lparr>ideas := (case data res of None \<Rightarrow> [] | Some xs \<Rightarrow> xs),
                   loading_i := False\<rparr>, w')))"

text \<open>\<^verbatim>\<open>{ ...formData, user_id: user?.id }\<close>\<close>

definition ideaData :: "user option \<Rightarrow> idea_form \<Rightarrow> payload" where
  "ideaData u fd =
     obj_set
       [(''title'', JStr (title_if fd)),
        (''description'', JStr (description_if fd)),
        (''category'', JStr (category_if fd)),
        (''estimated_cost'', JStr (estimated_cost_if fd)),
        (''estimated_duration'', JStr (estimated_duration_if fd)),
        (''location_type'', JStr (location_type_if fd))]
       ''user_id'' (user_id u)"

definition handleSubmit_i ::
  "(DatingIdea list, 'r) backend \<Rightarrow> user option \<Rightarrow> ideas_state \<Rightarrow> 'r world
     \<Rightarrow> ideas_state \<times> 'r world" where
  "handleSubmit_i be u st w =
     (let q = (case editingIdea st of
                 Some it \<Rightarrow>
                   Update ''dating_ideas'' (ideaData u (formData_i st))
                     (Eq ''id'' (JStr (id_i it)))
               | None \<Rightarrow> Insert ''dating_ideas'' [ideaData u (formData_i st)] False)
      in case await_call be q w of
           (out, w') \<Rightarrow>
             (case thrown out of
                Some m \<Rightarrow> (st, show_toast (Toast_error m) w')
              | None \<Rightarrow>
                  fetchIdeas be u
                    (st\<lparr>formData_i := empty_idea_form, editingIdea := None,
                        isDialogOpen_i := False\<rparr>)
                    (show_toast (if editingIdea st = None then Toast_created else Toast_updated)
                       w')))"

definition toggleFavorite ::
  "(DatingIdea list, 'r) backend \<Rightarrow> user option \<Rightarrow> DatingIdea \<Rightarrow> ideas_state
     \<Rightarrow> 'r world \<Rightarrow> ideas_state \<times> 'r world" where
  "toggleFavorite be u idea st w =
     (case await_call be
             (Update ''dating_ideas'' [(''is_favorite'', JBool (\<not> is_favorite idea))]
                (Eq ''id'' (JStr (id_i idea)))) w of
        (out, w') \<Rightarrow>
          (case thrown out of
             Some m \<Rightarrow> (st, show_toast (Toast_error m) w')
           | None \<Rightarrow>
               fetchIdeas be u st
                 (show_toast (Toast_favorite (is_favorite idea) (title_i idea)) w')))"

definition filteredIdeas :: "DatingIdea list \<Rightarrow> string \<Rightarrow> DatingIdea list" where
  "filteredIdeas xs categoryFilter =
     (if categoryFilter = ''all'' then xs
      else filter (\<lambda>idea. category_i idea = categoryFilter) xs)"

subsection \<open>The numbers of getRandomIdea\<close>

text \<open>
  \<^verbatim>\<open>Math.random() * filteredIdeas.length\<close> is a product of two IEEE 754 doubles,
  rounded to the nearest double with ties to even. A finite double that is not negative is
  written here as a mantissa below \<open>2 ^ 53\<close> and an exponent from \<open>- 1074\<close>, its
  value being \<open>mantissa * 2 ^ exponent\<close>; both operands of the product are of this
  kind. The exact product of two such numbers is again an integer times a power of two,
  and rounding keeps its 53 leading bits, or fewer where the exponent would fall below
  \<open>- 1074\<close>. A rounded mantissa may come out as \<open>2 ^ 53\<close> itself: the value is
  the double it stands for. Results from \<open>2 ^ 1024\<close> on (Infinity) are not represented;
  the products formed here stay below the length of an array.
\<close>

record double =
  mantissa :: nat
  exponent :: int

definition is_double :: "double \<Rightarrow> bool" where
  "is_double d = (mantissa d < 2 ^ 53 \<and> - 1074 \<le> exponent d \<and> exponent d \<le> 971)"

definition double_val :: "double \<Rightarrow> real" where
  "double_val d = real (mantissa d) * 2 powi exponent d"

fun bit_length :: "nat \<Rightarrow> nat" where
  "bit_length n = (if n = 0 then 0 else Suc (bit_length (n div 2)))"

declare bit_length.simps [simp del]

text \<open>The double nearest to \<open>p * 2 ^ e\<close>.\<close>

definition round_to_double :: "nat \<Rightarrow> int \<Rightarrow> double" where
  "round_to_double p e =
     (let s = max (int (bit_length p) - 53) (- 1074 - e)
      in if s \<le> 0 then \<lparr>mantissa = p, exponent = e\<rparr>
         else
           (let k = nat s; q = p div 2 ^ k; rest = p mod 2 ^ k; half = 2 ^ (k - 1)
            in \<lparr>mantissa = (if half < rest \<or> (rest = half \<and> odd q) then q + 1 else q),
                exponent = e + s\<rparr>))"

definition times_double :: "double \<Rightarrow> double \<Rightarrow> double" where
  "times_double a b = round_to_double (mantissa a * mantissa b) (exponent a + exponent b)"

text \<open>The length of an array as a Number.\<close>

definition double_of_nat :: "nat \<Rightarrow> double" where
  "double_of_nat n = round_to_double n 0"

text \<open>\<^verbatim>\<open>Math.floor\<close>\<close>

definition floor_double :: "double \<Rightarrow> int" where
  "floor_double d =
     (if 0 \<le> exponent d then int (mantissa d * 2 ^ nat (exponent d))
      else int (mantissa d div 2 ^ nat (- exponent d)))"

text \<open>
  getRandomIdea. \<open>r\<close> is the double returned by \<^verbatim>\<open>Math.random()\<close>. An index
  outside the array reads undefined, and \<^verbatim>\<open>randomIdea.title\<close> then throws a
  TypeError. The result carries the idea that was selected, if any.
\<close>

datatype js_error = TypeError

definition getRandomIdea ::
  "ideas_state \<Rightarrow> double \<Rightarrow> 'r world \<Rightarrow> js_error + DatingIdea option \<times> 'r world" where
  "getRandomIdea st r w =
     (let fi = filteredIdeas (ideas st) (categoryFilter_i st)
      in if length fi = 0 then Inr (None, show_toast Toast_no_ideas w)
         else
           (let k = floor_double (times_double r (double_of_nat (length fi)))
            in if 0 \<le> k \<and> k < int (length fi)
               then Inr (Some (fi ! nat k),
                         show_toast (Toast_random_idea (title_i (fi ! nat k))
                                       (category_i (fi ! nat k))) w)
               else Inl TypeError))"

section \<open>Events\<close>

record Event =
  id_e :: string
  title_e :: string
  description_e :: string
  location_e :: string
  event_date :: string
  category_e :: string
  distance_km :: "real option"
  is_public :: bool
  created_at_e :: string




text \<open>\<^verbatim>\<open>toLowerCase\<close> on text in the ASCII range, and \<^verbatim>\<open>includes\<close>.\<close>

definition toLowerCase :: "string \<Rightarrow> string" where
  "toLowerCase s =
     map (\<lambda>c. if 65 \<le> (of_char c :: nat) \<and> (of_char c :: nat) \<le> 90
               then char_of ((of_char c :: nat) + 32) else c) s"

definition includes_js :: "string \<Rightarrow> string \<Rightarrow> bool" where
  "includes_js s t = sublist t s"

text \<open>\<^verbatim>\<open>event.distance_km && p(event.distance_km)\<close> as a condition: the left
  operand is falsy when it is null and when it is zero.\<close>

definition distance_and :: "real option \<Rightarrow> (real \<Rightarrow> bool) \<Rightarrow> bool" where
  "distance_and d p = (case d of None \<Rightarrow> False | Some x \<Rightarrow> x \<noteq> 0 \<and> p x)"

definition matchesSearch :: "string \<Rightarrow> Event \<Rightarrow> bool" where
  "matchesSearch searchTerm event =
     (includes_js (toLowerCase (title_e event)) (toLowerCase searchTerm)
      \<or> includes_js (toLowerCase (description_e event)) (toLowerCase searchTerm)
      \<or> includes_js (toLowerCase (location_e event)) (toLowerCase searchTerm))"

definition matchesCategory :: "string \<Rightarrow> Event \<Rightarrow> bool" where
  "matchesCategory categoryFilter event =
     (categoryFilter = ''all'' \<or> category_e event = categoryFilter)"

definition matchesDistance :: "string \<Rightarrow> Event \<Rightarrow> bool" where
  "matchesDistance distanceFilter event =
     (distanceFilter = ''all''
      \<or> (distanceFilter = ''under5'' \<and> distance_and (distance_km event) (\<lambda>d. d \<le> 5))
      \<or> (distanceFilter = ''under20'' \<and> distance_and (distance_km event) (\<lambda>d. d \<le> 20))
      \<or> (distanceFilter = ''over20'' \<and> distance_and (distance_km event) (\<lambda>d. d > 20)))"

definition filteredEvents :: "Event list \<Rightarrow> string \<Rightarrow> string \<Rightarrow> string \<Rightarrow> Event list" where
  "filteredEvents events searchTerm categoryFilter distanceFilter =
     filter (\<lambda>event. matchesSearch searchTerm event
                      \<and> matchesCategory categoryFilter event
                      \<and> matchesDistance distanceFilter event) events"

section \<open>Blog\<close>

record BlogPost =
  id_p :: string
  title_p :: string
  content :: string
  author :: string
  is_published :: bool
  tags :: "string list option"
  created_at_p :: string
  updated_at :: string




section \<open>What is observed of a run\<close>

text \<open>The rows a request writes, and whether a row names the acting user.\<close>

fun written :: "request \<Rightarrow> payload list" where
  "written (Insert t rows returning) = rows"
| "written (Update t p f) = [p]"
| "written (Select t f col asc) = []"
| "written (Delete t f) = []"

definition carries_user :: "user \<Rightarrow> payload \<Rightarrow> bool" where
  "carries_user x p = (map_of p ''user_id'' = Some (JStr (id_u x)))"

text \<open>A row returned by an insert echoes the row that was sent when it is that row with
  an identifier of the store's choosing.\<close>

definition echoes :: "payload \<Rightarrow> DashboardWidget \<Rightarrow> bool" where
  "echoes p row = (snd (row_of_payload (id_w row) p) = row)"

section \<open>Inputs used to run the model\<close>

definition three_widgets :: apps_state where
  "three_widgets =
     \<lparr>layout =
        [\<lparr>id_w = ''w1'', widget_type = ''bucket-list'', position = 0, is_active = True, size_w = Medium\<rparr>,
         \<lparr>id_w = ''w2'', widget_type = ''dating-journal'', position = 1, is_active = True, size_w = Medium\<rparr>,
         \<lparr>id_w = ''w3'', widget_type = ''dating-ideas'', position = 2, is_active = True, size_w = Medium\<rparr>],
      loading = False\<rparr>"

definition drag :: "int \<Rightarrow> int \<Rightarrow> DropResult" where
  "drag i j = \<lparr>source = \<lparr>index = i\<rparr>, destination = Some \<lparr>index = j\<rparr>\<rparr>"

definition dropped_outside :: "int \<Rightarrow> DropResult" where
  "dropped_outside i = \<lparr>source = \<lparr>index = i\<rparr>, destination = None\<rparr>"

definition empty_store :: dashboard_store where
  "empty_store = \<lparr>table = [], script = [], fresh_ids = []\<rparr>"

definition two_widgets :: apps_state where
  "two_widgets =
     \<lparr>layout =
        [\<lparr>id_w = ''w1'', widget_type = ''bucket-list'', position = 0, is_active = True, size_w = Medium\<rparr>,
         \<lparr>id_w = ''w2'', widget_type = ''dating-journal'', position = 1, is_active = True, size_w = Medium\<rparr>],
      loading = False\<rparr>"

definition store_of :: "apps_state \<Rightarrow> fault list \<Rightarrow> dashboard_store" where
  "store_of st fs = \<lparr>table = map (\<lambda>x. (JStr ''u1'', x)) (layout st), script = fs, fresh_ids = []\<rparr>"



definition answering_backend :: "'d \<Rightarrow> ('d, 'r) backend" where
  "answering_backend d q r = (Resolved \<lparr>data = Some d, error = None\<rparr>, r)"

definition a_user :: user where
  "a_user = \<lparr>id_u = ''u1''\<rparr>"

definition signed_in :: "user option" where
  "signed_in = Some a_user"

definition store_with_ids :: "string list \<Rightarrow> dashboard_store" where
  "store_with_ids ids = \<lparr>table = [], script = [], fresh_ids = ids\<rparr>"

definition default_rows :: "string \<Rightarrow> string \<Rightarrow> string \<Rightarrow> string \<Rightarrow> DashboardWidget list" where
  "default_rows a b c d =
     [\<lparr>id_w = a, widget_type = ''bucket-list'', position = 0, is_active = True, size_w = Medium\<rparr>,
      \<lparr>id_w = b, widget_type = ''dating-journal'', position = 1, is_active = True, size_w = Medium\<rparr>,
      \<lparr>id_w = c, widget_type = ''dating-ideas'', position = 2, is_active = True, size_w = Medium\<rparr>,
      \<lparr>id_w = d, widget_type = ''dating-app'', position = 3, is_active = True, size_w = Medium\<rparr>]"

definition fresh_state :: apps_state where
  "fresh_state = \<lparr>layout = [], loading = True\<rparr>"

definition an_item :: BucketListItem where
  "an_item =
     \<lparr>id_b = ''b1'', title_b = ''Sail'', description_b = ''Cross the Atlantic'',
      category_b = ''Reisen'', is_completed = False, target_date = None,
      created_at_b = ''2024-01-01''\<rparr>"

definition showing_one_item :: bucket_state where
  "showing_one_item = initial_bucket_state\<lparr>items := [an_item], loading_b := False\<rparr>"

definition picnic :: DatingIdea where
  "picnic =
     \<lparr>id_i = ''i1'', title_i = ''Picknick'', description_i = ''Im Park'', category_i = ''Romantisch'',
      estimated_cost = ''Kostenlos'', estimated_duration = ''1-3h'', location_type = ''Draussen'',
      is_favorite = False, created_at_i = ''2024-01-01''\<rparr>"

definition climbing :: DatingIdea where
  "climbing =
     \<lparr>id_i = ''i2'', title_i = ''Klettern'', description_i = ''In der Halle'', category_i = ''Sport'',
      estimated_cost = ''20-50'', estimated_duration = ''3-5h'', location_type = ''Drinnen'',
      is_favorite = True, created_at_i = ''2024-01-02''\<rparr>"

definition ideas_view :: "DatingIdea list \<Rightarrow> string \<Rightarrow> ideas_state" where
  "ideas_view xs c =
     \<lparr>ideas = xs, loading_i = False, isDialogOpen_i = False, editingIdea = None,
      categoryFilter_i = c, formData_i = empty_idea_form\<rparr>"

definition nearby_event :: Event where
  "nearby_event =
     \<lparr>id_e = ''e1'', title_e = ''Hoffest'', description_e = ''Im eigenen Haus'',
      location_e = ''Innenhof'', event_date = ''2024-06-01'', category_e = ''Social'',
      distance_km = Some 0, is_public = True, created_at_e = ''2024-01-01''\<rparr>"


definition three_quarters :: double where
  "three_quarters = \<lparr>mantissa = 3, exponent = - 2\<rparr>"

section \<open>Properties\<close>

subsection \<open>Reordering\<close>

lemma splice_remove_one:
  assumes "i < length xs"
  shows "splice_js xs (int i) 1 [] = ([xs ! i], take i xs @ drop (Suc i) xs)"
proof -
  have s: "splice_start (int i) (length xs) = i"
    using assms by (simp add: splice_start_def)
  have d: "drop i xs = xs ! i # drop (Suc i) xs"
    using assms by (simp add: Cons_nth_drop_Suc)
  have m: "min (Suc 0) (length xs - i) = Suc 0"
    using assms by simp
  show ?thesis
    by (simp add: splice_js_def s Let_def m d)
qed

lemma splice_insert_one:
  assumes "j \<le> length ys"
  shows "splice_js ys (int j) 0 [x] = ([], take j ys @ x # drop j ys)"
proof -
  have s: "splice_start (int j) (length ys) = j"
    using assms by (simp add: splice_start_def)
  show ?thesis
    by (simp add: splice_js_def s Let_def)
qed

lemma updatedLayout_valid:
  assumes "i < length lay" and "j < length lay"
  shows "updatedLayout lay (int i) (int j) =
           Some (with_positions
                  (take j (take i lay @ drop (Suc i) lay) @ lay ! i
                     # drop j (take i lay @ drop (Suc i) lay)))"
proof -
  have "j \<le> length (take i lay @ drop (Suc i) lay)"
    using assms by simp
  then show ?thesis
    using assms(1) by (simp add: updatedLayout_def splice_remove_one splice_insert_one)
qed

lemma length_with_positions: "length (with_positions xs) = length xs"
  by (simp add: with_positions_def)

lemma position_with_positions: "map position (with_positions xs) = map int [0..<length xs]"
proof -
  have "map position (with_positions xs) = map (int \<circ> fst) (enumerate 0 xs)"
    by (simp add: with_positions_def case_prod_unfold comp_def)
  also have "\<dots> = map int (map fst (enumerate 0 xs))"
    by (simp only: map_map)
  also have "\<dots> = map int [0..<length xs]"
    by (simp only: map_fst_enumerate add_0)
  finally show ?thesis .
qed

lemma other_fields_with_positions: "map other_fields (with_positions xs) = map other_fields xs"
proof -
  have "map other_fields (with_positions xs) = map (other_fields \<circ> snd) (enumerate 0 xs)"
    by (simp add: with_positions_def case_prod_unfold comp_def other_fields_def)
  also have "\<dots> = map other_fields (map snd (enumerate 0 xs))"
    by (simp only: map_map)
  also have "\<dots> = map other_fields xs"
    by (simp only: map_snd_enumerate)
  finally show ?thesis .
qed

lemma nth_with_positions:
  "k < length xs \<Longrightarrow> with_positions xs ! k = (xs ! k)\<lparr>position := int k\<rparr>"
  by (simp add: with_positions_def nth_enumerate_eq)

lemma handleDragEnd_layout:
  assumes "destination result = Some dest"
    and "updatedLayout (layout st) (index (source result)) (index dest) = Some lay"
  shows "\<exists>w'. handleDragEnd be st result w = Inr (st\<lparr>layout := lay\<rparr>, w')"
  using assms by (simp add: handleDragEnd_def split: prod.splits option.splits)

lemma mset_move:
  assumes "i < length xs"
  shows "mset (take j (take i xs @ drop (Suc i) xs) @ xs ! i # drop j (take i xs @ drop (Suc i) xs))
           = mset xs"
proof -
  let ?ys = "take i xs @ drop (Suc i) xs"
  have "mset (take j ?ys @ xs ! i # drop j ?ys) = add_mset (xs ! i) (mset (take j ?ys @ drop j ?ys))"
    by simp
  also have "\<dots> = add_mset (xs ! i) (mset ?ys)"
    by (simp only: append_take_drop_id)
  also have "\<dots> = mset (take i xs @ xs ! i # drop (Suc i) xs)"
    by simp
  also have "\<dots> = mset xs"
    using assms by (simp only: id_take_nth_drop [symmetric])
  finally show ?thesis .
qed

text \<open>
  Claim C1. For a layout of N widgets and indices i and j below N, handleDragEnd takes the
  widget at index i out, puts it back at index j, and gives every widget its new index as
  position: apart from the positions the new layout is the old one with that widget moved,
  and the positions read 0, 1, ..., N - 1 in the new order.
\<close>

theorem handleDragEnd_dense_positions:
  assumes "i < length (layout st)" and "j < length (layout st)"
  shows "\<exists>st' w'. handleDragEnd be st (drag (int i) (int j)) w = Inr (st', w')
           \<and> map other_fields (layout st')
               = map other_fields
                   (take j (take i (layout st) @ drop (Suc i) (layout st)) @ layout st ! i
                      # drop j (take i (layout st) @ drop (Suc i) (layout st)))
           \<and> map position (layout st') = map int [0..<length (layout st)]"
proof -
  let ?moved = "take j (take i (layout st) @ drop (Suc i) (layout st)) @ layout st ! i
                  # drop j (take i (layout st) @ drop (Suc i) (layout st))"
  have u: "updatedLayout (layout st) (index (source (drag (int i) (int j)))) (index \<lparr>index = int j\<rparr>)
             = Some (with_positions ?moved)"
    using assms by (simp add: drag_def updatedLayout_valid)
  have d: "destination (drag (int i) (int j)) = Some \<lparr>index = int j\<rparr>"
    by (simp add: drag_def)
  obtain w' where h: "handleDragEnd be st (drag (int i) (int j)) w
                        = Inr (st\<lparr>layout := with_positions ?moved\<rparr>, w')"
    using handleDragEnd_layout [OF d u] by blast
  have len: "length ?moved = length (layout st)"
    using assms by simp
  have "map position (with_positions ?moved) = map int [0..<length (layout st)]"
    by (simp only: position_with_positions len)
  with h show ?thesis
    by (simp add: other_fields_with_positions)
qed

theorem handleDragEnd_dense_positions_witness:
  "2 < length (layout three_widgets) \<and> 0 < length (layout three_widgets)
   \<and> (\<exists>st' w'. handleDragEnd dashboard_backend three_widgets (drag 2 0) (new_world empty_store) = Inr (st', w')
           \<and> map other_fields (layout st')
               = [(''w3'', ''dating-ideas'', True, Medium), (''w1'', ''bucket-list'', True, Medium),
                  (''w2'', ''dating-journal'', True, Medium)]
           \<and> map position (layout st') = [0, 1, 2])"
proof -
  have a: "2 < length (layout three_widgets)" and b: "0 < length (layout three_widgets)"
    by (simp_all add: three_widgets_def)
  show ?thesis
    using a b handleDragEnd_dense_positions [OF a b, of dashboard_backend "new_world empty_store"]
    by (simp add: three_widgets_def other_fields_def upt_rec)
qed

text \<open>
  Claim C6. With bucket-list, dating-journal and dating-ideas at positions 0, 1 and 2,
  dragging index 2 to index 0 leaves dating-ideas at position 0, bucket-list at position 1
  and dating-journal at position 2, whatever the ids, flags and sizes of the three widgets
  and whatever the store answers.
\<close>

theorem handleDragEnd_scenario:
  "\<exists>w'. handleDragEnd be
           \<lparr>layout =
              [\<lparr>id_w = a, widget_type = ''bucket-list'', position = 0, is_active = x, size_w = sa\<rparr>,
               \<lparr>id_w = b, widget_type = ''dating-journal'', position = 1, is_active = y, size_w = sb\<rparr>,
               \<lparr>id_w = c, widget_type = ''dating-ideas'', position = 2, is_active = z, size_w = sc\<rparr>],
            loading = l\<rparr>
           (drag 2 0) w
         = Inr (\<lparr>layout =
                   [\<lparr>id_w = c, widget_type = ''dating-ideas'', position = 0, is_active = z, size_w = sc\<rparr>,
                    \<lparr>id_w = a, widget_type = ''bucket-list'', position = 1, is_active = x, size_w = sa\<rparr>,
                    \<lparr>id_w = b, widget_type = ''dating-journal'', position = 2, is_active = y, size_w = sb\<rparr>],
                 loading = l\<rparr>, w')"
proof -
  let ?st = "\<lparr>layout =
              [\<lparr>id_w = a, widget_type = ''bucket-list'', position = 0, is_active = x, size_w = sa\<rparr>,
               \<lparr>id_w = b, widget_type = ''dating-journal'', position = 1, is_active = y, size_w = sb\<rparr>,
               \<lparr>id_w = c, widget_type = ''dating-ideas'', position = 2, is_active = z, size_w = sc\<rparr>],
            loading = l\<rparr>"
  have d: "destination (drag 2 0) = Some \<lparr>index = 0\<rparr>"
    by (simp add: drag_def)
  have u: "updatedLayout (layout ?st) (index (source (drag 2 0))) (index \<lparr>index = 0\<rparr>)
             = Some [\<lparr>id_w = c, widget_type = ''dating-ideas'', position = 0, is_active = z, size_w = sc\<rparr>,
                    \<lparr>id_w = a, widget_type = ''bucket-list'', position = 1, is_active = x, size_w = sa\<rparr>,
                    \<lparr>id_w = b, widget_type = ''dating-journal'', position = 2, is_active = y, size_w = sb\<rparr>]"
    by (simp add: drag_def updatedLayout_def splice_js_def splice_start_def with_positions_def
          enumerate_eq_zip upt_rec)
  show ?thesis
    using handleDragEnd_layout [OF d u, of be w] by simp
qed

text \<open>
  Claim C7. A drag that ends without a destination changes nothing: the component state is
  the same, and so is everything outside it (no call is added to the calls made, the remote
  state is untouched, no notification is shown).
\<close>

theorem handleDragEnd_no_destination:
  assumes "destination result = None"
  shows "handleDragEnd be st result w = Inr (st, w)"
  using assms by (simp add: handleDragEnd_def)

theorem handleDragEnd_no_destination_witness:
  "destination (dropped_outside 1) = None
   \<and> handleDragEnd dashboard_backend three_widgets (dropped_outside 1) (new_world empty_store)
       = Inr (three_widgets, new_world empty_store)"
proof -
  have a: "destination (dropped_outside 1) = None"
    by (simp add: dropped_outside_def)
  show ?thesis
    using a handleDragEnd_no_destination [OF a, of dashboard_backend three_widgets "new_world empty_store"] by simp
qed

text \<open>
  Claim C9. For valid indices the reorder neither loses nor duplicates a widget: the ids
  of the new layout, counted with multiplicity, are those of the old one, and so are the
  widgets with their fields other than position.
\<close>

theorem handleDragEnd_preserves_widgets:
  assumes "i < length (layout st)" and "j < length (layout st)"
  shows "\<exists>st' w'. handleDragEnd be st (drag (int i) (int j)) w = Inr (st', w')
           \<and> mset (map id_w (layout st')) = mset (map id_w (layout st))
           \<and> mset (map other_fields (layout st')) = mset (map other_fields (layout st))"
proof -
  let ?moved = "take j (take i (layout st) @ drop (Suc i) (layout st)) @ layout st ! i
                  # drop j (take i (layout st) @ drop (Suc i) (layout st))"
  have u: "updatedLayout (layout st) (index (source (drag (int i) (int j)))) (index \<lparr>index = int j\<rparr>)
             = Some (with_positions ?moved)"
    using assms by (simp add: drag_def updatedLayout_valid)
  have d: "destination (drag (int i) (int j)) = Some \<lparr>index = int j\<rparr>"
    by (simp add: drag_def)
  obtain w' where h: "handleDragEnd be st (drag (int i) (int j)) w
                        = Inr (st\<lparr>layout := with_positions ?moved\<rparr>, w')"
    using handleDragEnd_layout [OF d u] by blast
  have m: "mset ?moved = mset (layout st)"
    using assms(1) by (rule mset_move)
  have o: "mset (map other_fields (with_positions ?moved)) = mset (map other_fields (layout st))"
    by (simp only: other_fields_with_positions mset_map m)
  have "map id_w (with_positions ?moved) = map (fst \<circ> other_fields) (with_positions ?moved)"
    by (simp add: other_fields_def comp_def)
  also have "\<dots> = map fst (map other_fields ?moved)"
    by (simp only: other_fields_with_positions flip: map_map)
  finally have "mset (map id_w (with_positions ?moved)) = mset (map id_w (layout st))"
    by (simp only: map_map mset_map m) (simp add: other_fields_def comp_def)
  with h o show ?thesis
    by simp
qed

theorem handleDragEnd_preserves_widgets_witness:
  "1 < length (layout three_widgets) \<and> 2 < length (layout three_widgets)
   \<and> (\<exists>st' w'. handleDragEnd dashboard_backend three_widgets (drag 1 2) (new_world empty_store) = Inr (st', w')
           \<and> mset (map id_w (layout st')) = {#''w1'', ''w2'', ''w3''#}
           \<and> mset (map other_fields (layout st')) = mset (map other_fields (layout three_widgets)))"
proof -
  have a: "1 < length (layout three_widgets)" and b: "2 < length (layout three_widgets)"
    by (simp_all add: three_widgets_def)
  show ?thesis
    using a b handleDragEnd_preserves_widgets [OF a b, of dashboard_backend "new_world empty_store"]
    by (simp add: three_widgets_def)
qed

subsection \<open>Saving the positions\<close>

text \<open>
  Claim C4, at an input where it fails. Two widgets are swapped; the first position update
  succeeds and the second resolves with an error. The first update stays in the table, the
  component keeps the reordered layout, both calls were made one after the other, and no
  notification is shown: the handler never reads the result of an update, so only a call
  that throws reaches the catch block. The table ends with both rows at position 0.
\<close>

theorem handleDragEnd_error_response_unreported:
  "handleDragEnd dashboard_backend two_widgets (drag 0 1)
     (new_world (store_of two_widgets [Succeed, Fail_response ''denied'']))
   = Inr (\<lparr>layout =
             [\<lparr>id_w = ''w2'', widget_type = ''dating-journal'', position = 0, is_active = True, size_w = Medium\<rparr>,
              \<lparr>id_w = ''w1'', widget_type = ''bucket-list'', position = 1, is_active = True, size_w = Medium\<rparr>],
            loading = False\<rparr>,
          \<lparr>remote =
             \<lparr>table =
                [(JStr ''u1'', \<lparr>id_w = ''w1'', widget_type = ''bucket-list'', position = 0, is_active = True, size_w = Medium\<rparr>),
                 (JStr ''u1'', \<lparr>id_w = ''w2'', widget_type = ''dating-journal'', position = 0, is_active = True, size_w = Medium\<rparr>)],
              script = [], fresh_ids = []\<rparr>,
           calls =
             [Update ''dashboard_layout'' [(''position'', JNum 0)] (Eq ''id'' (JStr ''w2'')),
              Update ''dashboard_layout'' [(''position'', JNum 1)] (Eq ''id'' (JStr ''w1''))],
           toasts = [], console = []\<rparr>)"
  by (simp add: handleDragEnd_def drag_def two_widgets_def store_of_def new_world_def
        updatedLayout_def splice_js_def splice_start_def with_positions_def enumerate_eq_zip upt_rec
        await_call_def dashboard_backend_def run_request_def column_def set_columns_def save_position_def)

lemma save_updates_resolving:
  assumes "\<And>q r e. fst (be q r) \<noteq> Rejected e"
  shows "fst (save_updates be us w) = None \<and> toasts (snd (save_updates be us w)) = toasts w
         \<and> calls (snd (save_updates be us w)) = calls w @ map save_position us"
proof (induction us arbitrary: w)
  case Nil
  show ?case by simp
next
  case (Cons u us)
  obtain out r' where b: "be (save_position u) (remote w) = (out, r')"
    by (cases "be (save_position u) (remote w)")
  obtain res where o: "out = Resolved res"
    using assms [of "save_position u" "remote w"] b by (cases out) auto
  show ?case
    using Cons.IH [of "w\<lparr>remote := r', calls := calls w @ [save_position u]\<rparr>"]
    by (simp add: await_call_def b o)
qed

lemma handleDragEnd_silent:
  assumes "\<And>q r e. fst (be q r) \<noteq> Rejected e"
    and "handleDragEnd be st result w = Inr (st', w')"
  shows "toasts w' = toasts w"
proof (cases "destination result")
  case None
  with assms(2) show ?thesis by (simp add: handleDragEnd_def)
next
  case (Some dest)
  show ?thesis
  proof (cases "updatedLayout (layout st) (index (source result)) (index dest)")
    case None
    with Some assms(2) show ?thesis by (simp add: handleDragEnd_def)
  next
    case (Some lay)
    from save_updates_resolving [where be = be and us = lay and w = w, OF assms(1)]
    obtain w2 where "save_updates be lay w = (None, w2)" and "toasts w2 = toasts w"
      by (cases "save_updates be lay w") auto
    with Some \<open>destination result = Some dest\<close> assms(2) show ?thesis
      by (simp add: handleDragEnd_def)
  qed
qed

lemma save_updates_calls:
  "\<exists>k\<le>length us. calls (snd (save_updates be us w)) = calls w @ map save_position (take k us)"
proof (induction us arbitrary: w)
  case Nil
  show ?case by simp
next
  case (Cons u us)
  obtain out r' where b: "be (save_position u) (remote w) = (out, r')"
    by (cases "be (save_position u) (remote w)")
  let ?w = "w\<lparr>remote := r', calls := calls w @ [save_position u]\<rparr>"
  show ?case
  proof (cases out)
    case (Rejected e)
    then have "calls (snd (save_updates be (u # us) w)) = calls w @ map save_position (take 1 (u # us))"
      by (simp add: await_call_def b)
    then show ?thesis
      by (metis One_nat_def Suc_leI length_Cons zero_less_Suc)
  next
    case (Resolved res)
    from Cons.IH [of ?w] obtain k where k: "k \<le> length us"
      and c: "calls (snd (save_updates be us ?w)) = calls ?w @ map save_position (take k us)"
      by blast
    have "calls (snd (save_updates be (u # us) w)) = calls w @ map save_position (take (Suc k) (u # us))"
      using c by (simp add: await_call_def b Resolved)
    with k show ?thesis
      by (metis Suc_le_mono length_Cons)
  qed
qed

lemma save_updates_thrown_toast:
  assumes "destination result = Some dest"
    and "updatedLayout (layout st) (index (source result)) (index dest) = Some lay"
    and "save_updates be lay w = (Some e, w1)"
  shows "handleDragEnd be st result w
           = Inr (st\<lparr>layout := lay\<rparr>,
                  show_toast Toast_layout_not_saved (console_error ''Error saving layout:'' w1))"
  using assms by (simp add: handleDragEnd_def)

lemma handleDragEnd_thrown_reported:
  "handleDragEnd dashboard_backend two_widgets (drag 0 1)
     (new_world (store_of two_widgets [Succeed, Fail_throw ''offline'']))
   = Inr (\<lparr>layout =
             [\<lparr>id_w = ''w2'', widget_type = ''dating-journal'', position = 0, is_active = True, size_w = Medium\<rparr>,
              \<lparr>id_w = ''w1'', widget_type = ''bucket-list'', position = 1, is_active = True, size_w = Medium\<rparr>],
            loading = False\<rparr>,
          \<lparr>remote =
             \<lparr>table =
                [(JStr ''u1'', \<lparr>id_w = ''w1'', widget_type = ''bucket-list'', position = 0, is_active = True, size_w = Medium\<rparr>),
                 (JStr ''u1'', \<lparr>id_w = ''w2'', widget_type = ''dating-journal'', position = 0, is_active = True, size_w = Medium\<rparr>)],
              script = [], fresh_ids = []\<rparr>,
           calls =
             [Update ''dashboard_layout'' [(''position'', JNum 0)] (Eq ''id'' (JStr ''w2'')),
              Update ''dashboard_layout'' [(''position'', JNum 1)] (Eq ''id'' (JStr ''w1''))],
           toasts = [Toast_layout_not_saved], console = [''Error saving layout:'']\<rparr>)"
  by (simp add: handleDragEnd_def drag_def two_widgets_def store_of_def new_world_def
        updatedLayout_def splice_js_def splice_start_def with_positions_def enumerate_eq_zip upt_rec
        await_call_def dashboard_backend_def run_request_def column_def set_columns_def save_position_def
        show_toast_def console_error_def)

subsection \<open>The default layout\<close>

lemma defaultWidgets_rows:
  "defaultWidgets u =
     [[(''widget_type'', JStr ''bucket-list''), (''position'', JNum 0), (''is_active'', JBool True),
       (''size'', JStr ''medium''), (''user_id'', user_id u)],
      [(''widget_type'', JStr ''dating-journal''), (''position'', JNum 1), (''is_active'', JBool True),
       (''size'', JStr ''medium''), (''user_id'', user_id u)],
      [(''widget_type'', JStr ''dating-ideas''), (''position'', JNum 2), (''is_active'', JBool True),
       (''size'', JStr ''medium''), (''user_id'', user_id u)],
      [(''widget_type'', JStr ''dating-app''), (''position'', JNum 3), (''is_active'', JBool True),
       (''size'', JStr ''medium''), (''user_id'', user_id u)]]"
  by (simp add: defaultWidgets_def AVAILABLE_WIDGETS_def enumerate_eq_zip upt_rec)

lemma createDefaultLayout_adopts:
  assumes "be (Insert ''dashboard_layout'' (defaultWidgets u) True) (remote w)
             = (Resolved \<lparr>data = Some rows, error = None\<rparr>, s)"
  shows "layout (fst (createDefaultLayout be u st w)) = rows"
  using assms by (simp add: createDefaultLayout_def await_call_def)

lemma echoes_rows:
  assumes "list_all2 echoes (defaultWidgets u) rows"
  shows "\<exists>a b c d.
           rows = [\<lparr>id_w = a, widget_type = ''bucket-list'', position = 0, is_active = True, size_w = Medium\<rparr>,
                   \<lparr>id_w = b, widget_type = ''dating-journal'', position = 1, is_active = True, size_w = Medium\<rparr>,
                   \<lparr>id_w = c, widget_type = ''dating-ideas'', position = 2, is_active = True, size_w = Medium\<rparr>,
                   \<lparr>id_w = d, widget_type = ''dating-app'', position = 3, is_active = True, size_w = Medium\<rparr>]"
proof -
  from assms obtain r1 r2 r3 r4 where rows: "rows = [r1, r2, r3, r4]"
    and e: "echoes (defaultWidgets u ! 0) r1" "echoes (defaultWidgets u ! 1) r2"
           "echoes (defaultWidgets u ! 2) r3" "echoes (defaultWidgets u ! 3) r4"
    by (auto simp: defaultWidgets_rows list_all2_Cons1)
  from e have
    "r1 = \<lparr>id_w = id_w r1, widget_type = ''bucket-list'', position = 0, is_active = True, size_w = Medium\<rparr>"
    "r2 = \<lparr>id_w = id_w r2, widget_type = ''dating-journal'', position = 1, is_active = True, size_w = Medium\<rparr>"
    "r3 = \<lparr>id_w = id_w r3, widget_type = ''dating-ideas'', position = 2, is_active = True, size_w = Medium\<rparr>"
    "r4 = \<lparr>id_w = id_w r4, widget_type = ''dating-app'', position = 3, is_active = True, size_w = Medium\<rparr>"
    by (simp_all add: echoes_def defaultWidgets_rows row_of_payload_def size_of_jsval_def)
  with rows show ?thesis by blast
qed

lemma dashboard_backend_insert:
  "dashboard_backend (Insert ''dashboard_layout'' (defaultWidgets u) True)
     (remote (new_world (store_with_ids [a, b, c, d])))
   = (Resolved \<lparr>data = Some (default_rows a b c d), error = None\<rparr>,
      \<lparr>table = map (\<lambda>x. (user_id u, x)) (default_rows a b c d), script = [], fresh_ids = []\<rparr>)"
  by (simp add: dashboard_backend_def run_request_def new_world_def store_with_ids_def
        defaultWidgets_rows row_of_payload_def size_of_jsval_def default_rows_def)

lemma echoes_default_rows: "list_all2 echoes (defaultWidgets u) (default_rows a b c d)"
  by (simp add: defaultWidgets_rows default_rows_def echoes_def row_of_payload_def size_of_jsval_def)

text \<open>
  Claim C5. The rows createDefaultLayout sends are one per entry of AVAILABLE_WIDGETS, in
  catalog order: the widget type is the entry's id, the position is the entry's index, every
  row is active and of size medium. When the store answers the insert with the rows it was
  sent, each under an id of its own, the component adopts exactly those rows; so two runs
  end with the same widget types in the same order, namely the catalog's, and their rows
  differ in nothing but the ids.
\<close>

theorem createDefaultLayout_catalog_rows:
  assumes "be1 (Insert ''dashboard_layout'' (defaultWidgets u) True) (remote w1)
             = (Resolved \<lparr>data = Some rows1, error = None\<rparr>, s1)"
    and "list_all2 echoes (defaultWidgets u) rows1"
    and "be2 (Insert ''dashboard_layout'' (defaultWidgets u) True) (remote w2)
             = (Resolved \<lparr>data = Some rows2, error = None\<rparr>, s2)"
    and "list_all2 echoes (defaultWidgets u) rows2"
  shows "map (\<lambda>row. map_of row ''widget_type'') (defaultWidgets u)
           = map (\<lambda>c. Some (JStr (id_c c))) AVAILABLE_WIDGETS
         \<and> map (\<lambda>row. map_of row ''position'') (defaultWidgets u)
           = map (\<lambda>k. Some (JNum (int k))) [0..<length AVAILABLE_WIDGETS]
         \<and> map (\<lambda>row. map_of row ''is_active'') (defaultWidgets u)
           = replicate (length AVAILABLE_WIDGETS) (Some (JBool True))
         \<and> map (\<lambda>row. map_of row ''size'') (defaultWidgets u)
           = replicate (length AVAILABLE_WIDGETS) (Some (JStr ''medium''))
         \<and> layout (fst (createDefaultLayout be1 u st1 w1)) = rows1
         \<and> layout (fst (createDefaultLayout be2 u st2 w2)) = rows2
         \<and> map widget_type rows1 = map id_c AVAILABLE_WIDGETS
         \<and> map widget_type rows2 = map widget_type rows1
         \<and> map (\<lambda>x. x\<lparr>id_w := []\<rparr>) rows2 = map (\<lambda>x. x\<lparr>id_w := []\<rparr>) rows1"
proof -
  have p: "map (\<lambda>row. map_of row ''widget_type'') (defaultWidgets u)
             = map (\<lambda>c. Some (JStr (id_c c))) AVAILABLE_WIDGETS"
    by (simp add: defaultWidgets_rows) (simp add: AVAILABLE_WIDGETS_def)
  have q: "map (\<lambda>row. map_of row ''position'') (defaultWidgets u)
             = map (\<lambda>k. Some (JNum (int k))) [0..<length AVAILABLE_WIDGETS]"
    by (simp add: defaultWidgets_rows) (simp add: AVAILABLE_WIDGETS_def upt_rec)
  have a: "map (\<lambda>row. map_of row ''is_active'') (defaultWidgets u)
             = replicate (length AVAILABLE_WIDGETS) (Some (JBool True))"
    by (simp add: defaultWidgets_rows) (simp add: AVAILABLE_WIDGETS_def numeral_eq_Suc)
  have z: "map (\<lambda>row. map_of row ''size'') (defaultWidgets u)
             = replicate (length AVAILABLE_WIDGETS) (Some (JStr ''medium''))"
    by (simp add: defaultWidgets_rows) (simp add: AVAILABLE_WIDGETS_def numeral_eq_Suc)
  have l1: "layout (fst (createDefaultLayout be1 u st1 w1)) = rows1"
    using assms(1) by (rule createDefaultLayout_adopts)
  have l2: "layout (fst (createDefaultLayout be2 u st2 w2)) = rows2"
    using assms(3) by (rule createDefaultLayout_adopts)
  from echoes_rows [OF assms(2)] obtain a1 b1 c1 d1 where r1:
    "rows1 = [\<lparr>id_w = a1, widget_type = ''bucket-list'', position = 0, is_active = True, size_w = Medium\<rparr>,
              \<lparr>id_w = b1, widget_type = ''dating-journal'', position = 1, is_active = True, size_w = Medium\<rparr>,
              \<lparr>id_w = c1, widget_type = ''dating-ideas'', position = 2, is_active = True, size_w = Medium\<rparr>,
              \<lparr>id_w = d1, widget_type = ''dating-app'', position = 3, is_active = True, size_w = Medium\<rparr>]"
    by blast
  from echoes_rows [OF assms(4)] obtain a2 b2 c2 d2 where r2:
    "rows2 = [\<lparr>id_w = a2, widget_type = ''bucket-list'', position = 0, is_active = True, size_w = Medium\<rparr>,
              \<lparr>id_w = b2, widget_type = ''dating-journal'', position = 1, is_active = True, size_w = Medium\<rparr>,
              \<lparr>id_w = c2, widget_type = ''dating-ideas'', position = 2, is_active = True, size_w = Medium\<rparr>,
              \<lparr>id_w = d2, widget_type = ''dating-app'', position = 3, is_active = True, size_w = Medium\<rparr>]"
    by blast
  have t1: "map widget_type rows1 = map id_c AVAILABLE_WIDGETS"
    by (simp add: r1 AVAILABLE_WIDGETS_def)
  have t2: "map widget_type rows2 = map widget_type rows1"
    by (simp add: r1 r2)
  have t3: "map (\<lambda>x. x\<lparr>id_w := []\<rparr>) rows2 = map (\<lambda>x. x\<lparr>id_w := []\<rparr>) rows1"
    by (simp add: r1 r2)
  from p q a z l1 l2 t1 t2 t3 show ?thesis
    by (intro conjI)
qed

theorem createDefaultLayout_catalog_rows_witness:
  "dashboard_backend (Insert ''dashboard_layout'' (defaultWidgets signed_in) True)
       (remote (new_world (store_with_ids [''a'', ''b'', ''c'', ''d''])))
     = (Resolved \<lparr>data = Some (default_rows ''a'' ''b'' ''c'' ''d''), error = None\<rparr>,
        \<lparr>table = map (\<lambda>x. (user_id signed_in, x)) (default_rows ''a'' ''b'' ''c'' ''d''),
         script = [], fresh_ids = []\<rparr>)
   \<and> list_all2 echoes (defaultWidgets signed_in) (default_rows ''a'' ''b'' ''c'' ''d'')
   \<and> dashboard_backend (Insert ''dashboard_layout'' (defaultWidgets signed_in) True)
       (remote (new_world (store_with_ids [''e'', ''f'', ''g'', ''h''])))
     = (Resolved \<lparr>data = Some (default_rows ''e'' ''f'' ''g'' ''h''), error = None\<rparr>,
        \<lparr>table = map (\<lambda>x. (user_id signed_in, x)) (default_rows ''e'' ''f'' ''g'' ''h''),
         script = [], fresh_ids = []\<rparr>)
   \<and> list_all2 echoes (defaultWidgets signed_in) (default_rows ''e'' ''f'' ''g'' ''h'')
   \<and> layout (fst (createDefaultLayout dashboard_backend signed_in fresh_state
                     (new_world (store_with_ids [''a'', ''b'', ''c'', ''d'']))))
       = default_rows ''a'' ''b'' ''c'' ''d''
   \<and> layout (fst (createDefaultLayout dashboard_backend signed_in fresh_state
                     (new_world (store_with_ids [''e'', ''f'', ''g'', ''h'']))))
       = default_rows ''e'' ''f'' ''g'' ''h''
   \<and> map widget_type (default_rows ''e'' ''f'' ''g'' ''h'')
       = map widget_type (default_rows ''a'' ''b'' ''c'' ''d'')
   \<and> map widget_type (default_rows ''a'' ''b'' ''c'' ''d'')
       = [''bucket-list'', ''dating-journal'', ''dating-ideas'', ''dating-app'']"
proof -
  note r1 = dashboard_backend_insert [of signed_in "''a''" "''b''" "''c''" "''d''"]
  note r2 = dashboard_backend_insert [of signed_in "''e''" "''f''" "''g''" "''h''"]
  note e1 = echoes_default_rows [of signed_in "''a''" "''b''" "''c''" "''d''"]
  note e2 = echoes_default_rows [of signed_in "''e''" "''f''" "''g''" "''h''"]
  from createDefaultLayout_catalog_rows [where ?be1.0 = dashboard_backend and ?be2.0 = dashboard_backend and u = signed_in
        and ?w1.0 = "new_world (store_with_ids [''a'', ''b'', ''c'', ''d''])"
        and ?w2.0 = "new_world (store_with_ids [''e'', ''f'', ''g'', ''h''])"
        and ?st1.0 = fresh_state and ?st2.0 = fresh_state, OF r1 e1 r2 e2]
  have "layout (fst (createDefaultLayout dashboard_backend signed_in fresh_state
                     (new_world (store_with_ids [''a'', ''b'', ''c'', ''d'']))))
          = default_rows ''a'' ''b'' ''c'' ''d''"
    and "layout (fst (createDefaultLayout dashboard_backend signed_in fresh_state
                     (new_world (store_with_ids [''e'', ''f'', ''g'', ''h'']))))
          = default_rows ''e'' ''f'' ''g'' ''h''"
    and "map widget_type (default_rows ''e'' ''f'' ''g'' ''h'')
          = map widget_type (default_rows ''a'' ''b'' ''c'' ''d'')"
    and "map widget_type (default_rows ''a'' ''b'' ''c'' ''d'') = map id_c AVAILABLE_WIDGETS"
    by blast+
  moreover have "map id_c AVAILABLE_WIDGETS
                   = [''bucket-list'', ''dating-journal'', ''dating-ideas'', ''dating-app'']"
    by (simp add: AVAILABLE_WIDGETS_def)
  ultimately show ?thesis
    using r1 e1 r2 e2 by (simp only: simp_thms)
qed

subsection \<open>A fetch that fails\<close>












subsection \<open>The rows that are written\<close>

lemma obj_set_lookup: "map_of (obj_set p k v) k = Some v"
  by (induction p k v rule: obj_set.induct) simp_all

lemma obj_set_other: "k' \<noteq> k \<Longrightarrow> map_of (obj_set p k v) k' = map_of p k'"
  by (induction p k v rule: obj_set.induct) simp_all

lemma form_payloads_carry_user:
  "carries_user x (itemData (Some x) fb)"
  "carries_user x (ideaData (Some x) fi)"
  "carries_user x (entryData (Some x) fj)"
  by (simp_all add: carries_user_def itemData_def ideaData_def entryData_def user_id_def)

lemma fetchItems_calls:
  "calls (snd (fetchItems be u st w))
     = calls w @ [Select ''bucket_list_items'' (Eq ''user_id'' (user_id u)) ''created_at'' False]"
  by (auto simp: fetchItems_def await_call_def console_error_def show_toast_def
           split: prod.splits awaited.splits option.splits)

lemma fetchIdeas_calls:
  "calls (snd (fetchIdeas be u st w))
     = calls w @ [Select ''dating_ideas'' (Eq ''user_id'' (user_id u)) ''created_at'' False]"
  by (auto simp: fetchIdeas_def await_call_def console_error_def show_toast_def
           split: prod.splits awaited.splits option.splits)

lemma fetchEntries_calls:
  "calls (snd (fetchEntries be u st w))
     = calls w @ [Select ''dating_journal_entries'' (Eq ''user_id'' (user_id u)) ''date'' False]"
  by (auto simp: fetchEntries_def await_call_def console_error_def show_toast_def
           split: prod.splits awaited.splits option.splits)

lemma handleSubmit_i_written:
  "concat (map written (calls (snd (handleSubmit_i be u st w))))
     = concat (map written (calls w)) @ [ideaData u (formData_i st)]"
  by (auto simp: handleSubmit_i_def Let_def await_call_def show_toast_def fetchIdeas_calls
           split: prod.splits option.splits)

lemma handleSubmit_j_written:
  "concat (map written (calls (snd (handleSubmit_j be u st w))))
     = concat (map written (calls w)) @ [entryData u (formData_j st)]"
  by (auto simp: handleSubmit_j_def Let_def await_call_def show_toast_def fetchEntries_calls
           split: prod.splits option.splits)

lemma toggleFavorite_written:
  "concat (map written (calls (snd (toggleFavorite be u idea st w))))
     = concat (map written (calls w)) @ [[(''is_favorite'', JBool (\<not> is_favorite idea))]]"
  by (auto simp: toggleFavorite_def await_call_def show_toast_def fetchIdeas_calls
           split: prod.splits option.splits)

lemma handleSubmit_b_written:
  "concat (map written (calls (snd (handleSubmit_b be u st w))))
     = concat (map written (calls w)) @ [itemData u (formData_b st)]"
  by (auto simp: handleSubmit_b_def Let_def await_call_def show_toast_def fetchItems_calls
           split: prod.splits option.splits)

lemma toggleComplete_written:
  "concat (map written (calls (snd (toggleComplete be u item st w))))
     = concat (map written (calls w)) @ [[(''is_completed'', JBool (\<not> is_completed item))]]"
  by (auto simp: toggleComplete_def await_call_def show_toast_def fetchItems_calls
           split: prod.splits option.splits)

text \<open>
  Claim C2, at inputs where it fails. A signed-in user marks a bucket list item as done,
  and marks a dating idea as favourite. The only row each handler writes holds the toggled
  flag alone; the user's identifier is not in it.
\<close>

theorem toggles_write_no_user_id:
  "concat (map written
      (calls (snd (toggleComplete (answering_backend []) signed_in an_item showing_one_item
                     (new_world ())))))
     = [[(''is_completed'', JBool True)]]
   \<and> \<not> carries_user a_user [(''is_completed'', JBool True)]
   \<and> concat (map written
      (calls (snd (toggleFavorite (answering_backend []) signed_in picnic
                     (ideas_view [picnic] ''all'') (new_world ())))))
     = [[(''is_favorite'', JBool True)]]
   \<and> \<not> carries_user a_user [(''is_favorite'', JBool True)]"
  by (simp add: toggleComplete_def toggleFavorite_def fetchItems_def fetchIdeas_def await_call_def
        answering_backend_def thrown_def show_toast_def new_world_def an_item_def picnic_def
        carries_user_def)

subsection \<open>Filters\<close>

lemma filteredIdeas_filter:
  "filteredIdeas xs c = filter (\<lambda>idea. c = ''all'' \<or> category_i idea = c) xs"
  by (simp add: filteredIdeas_def)

lemma filteredEvents_under5:
  "filteredEvents es s c ''under5''
     = filter (\<lambda>e. matchesSearch s e \<and> matchesCategory c e
                    \<and> (\<exists>d. distance_km e = Some d \<and> d \<noteq> 0 \<and> d \<le> 5)) es"
  by (auto simp: filteredEvents_def matchesDistance_def distance_and_def
           intro!: filter_cong split: option.splits)

text \<open>
  Claim C3, at an input where it fails. An event whose distance is 0 km is listed when no
  filter is active. With the distance filter under5 it is not shown, although 0 is at most 5:
  the test \<^verbatim>\<open>event.distance_km && event.distance_km <= 5\<close> is false for a
  distance of zero.
\<close>

theorem filteredEvents_drops_zero_distance:
  "distance_km nearby_event = Some 0
   \<and> filteredEvents [nearby_event] [] ''all'' ''all'' = [nearby_event]
   \<and> filteredEvents [nearby_event] [] ''all'' ''under5'' = []"
  by (simp add: filteredEvents_def matchesSearch_def matchesCategory_def matchesDistance_def
        distance_and_def includes_js_def toLowerCase_def nearby_event_def)

subsection \<open>A random idea\<close>

lemma bit_length_upper: "n < 2 ^ bit_length n"
proof (induction n rule: bit_length.induct)
  case (1 n)
  show ?case
  proof (cases "n = 0")
    case True
    then show ?thesis by (simp add: bit_length.simps)
  next
    case False
    with 1 have "n div 2 < 2 ^ bit_length (n div 2)" by simp
    then have "n < 2 * 2 ^ bit_length (n div 2)" by linarith
    with False show ?thesis by (simp add: bit_length.simps [of n])
  qed
qed

lemma bit_length_lower: "0 < n \<Longrightarrow> 2 ^ (bit_length n - 1) \<le> n"
proof (induction n rule: bit_length.induct)
  case (1 n)
  show ?case
  proof (cases "n div 2 = 0")
    case True
    with 1(2) have "n = 1" by linarith
    then show ?thesis by (simp add: bit_length.simps)
  next
    case False
    then have p: "0 < n div 2" by simp
    with 1 have h: "2 ^ (bit_length (n div 2) - 1) \<le> n div 2" by simp
    have b: "0 < bit_length (n div 2)"
      using p by (simp add: bit_length.simps [of "n div 2"])
    have "bit_length n - 1 = Suc (bit_length (n div 2) - 1)"
      using 1(2) b by (simp add: bit_length.simps [of n])
    then have "(2::nat) ^ (bit_length n - 1) = 2 * 2 ^ (bit_length (n div 2) - 1)"
      by simp
    also have "\<dots> \<le> 2 * (n div 2)" using h by simp
    also have "\<dots> \<le> n" by simp
    finally show ?thesis .
  qed
qed

lemma bit_length_le:
  assumes "n < 2 ^ k"
  shows "bit_length n \<le> k"
proof (rule ccontr)
  assume "\<not> bit_length n \<le> k"
  then have k: "k \<le> bit_length n - 1" and pos: "0 < bit_length n" by simp_all
  have "0 < n"
    using pos by (cases "n = 0") (simp_all add: bit_length.simps)
  then have "2 ^ (bit_length n - 1) \<le> n" by (rule bit_length_lower)
  moreover have "(2::nat) ^ k \<le> 2 ^ (bit_length n - 1)"
    using k by (simp add: power_increasing)
  ultimately show False using assms by linarith
qed

lemma floor_double_val: "floor_double d = \<lfloor>double_val d\<rfloor>"
proof (cases "0 \<le> exponent d")
  case True
  have "double_val d = real (mantissa d * 2 ^ nat (exponent d))"
    using True by (simp add: double_val_def power_int_def)
  then show ?thesis
    using True by (simp add: floor_double_def del: of_nat_mult of_nat_power)
next
  case False
  have "double_val d = real (mantissa d) / real (2 ^ nat (- exponent d))"
    using False by (simp add: double_val_def power_int_def field_simps)
  then have "\<lfloor>double_val d\<rfloor> = int (mantissa d div 2 ^ nat (- exponent d))"
    by (simp only: floor_divide_of_nat_eq)
  then show ?thesis
    using False by (simp add: floor_double_def)
qed

lemma double_of_nat_exact:
  assumes "n < 2 ^ 53"
  shows "double_of_nat n = \<lparr>mantissa = n, exponent = 0\<rparr>"
proof -
  have "bit_length n \<le> 53" using assms by (rule bit_length_le)
  then show ?thesis by (simp add: double_of_nat_def round_to_double_def)
qed

lemma rounded_mantissa:
  assumes "0 < k"
  shows "(if 2 ^ (k - 1) < p mod 2 ^ k \<or> (p mod 2 ^ k = 2 ^ (k - 1) \<and> odd (p div 2 ^ k))
          then p div 2 ^ k + 1 else p div 2 ^ k) * 2 ^ k \<le> (p::nat) + 2 ^ (k - 1)" (is "?q * _ \<le> _")
proof -
  have two: "(2::nat) ^ k = 2 * 2 ^ (k - 1)"
    using assms by (cases k) simp_all
  show ?thesis
  proof (cases "2 ^ (k - 1) < p mod 2 ^ k \<or> (p mod 2 ^ k = 2 ^ (k - 1) \<and> odd (p div 2 ^ k))")
    case True
    then have r: "2 ^ (k - 1) \<le> p mod 2 ^ k" by auto
    have "?q * 2 ^ k = p div 2 ^ k * 2 ^ k + 2 ^ k"
      using True by (simp add: algebra_simps)
    also have "\<dots> = p div 2 ^ k * 2 ^ k + 2 ^ (k - 1) + 2 ^ (k - 1)"
      using two by simp
    also have "\<dots> \<le> p div 2 ^ k * 2 ^ k + p mod 2 ^ k + 2 ^ (k - 1)"
      using r by simp
    also have "\<dots> = p + 2 ^ (k - 1)" by (simp only: div_mult_mod_eq)
    finally show ?thesis .
  next
    case False
    then have "?q * 2 ^ k = p div 2 ^ k * 2 ^ k" by simp
    also have "\<dots> \<le> p" by (rule div_times_less_eq_dividend)
    finally show ?thesis by simp
  qed
qed


lemma times_length_below:
  assumes d: "is_double r" and r: "double_val r < 1" and n0: "0 < n" and n: "n < 2 ^ 53"
  shows "double_val (times_double r (double_of_nat n)) < real n"
proof -
  let ?m = "mantissa r" and ?e = "exponent r"
  let ?p = "?m * n"
  let ?s = "max (int (bit_length ?p) - 53) (- 1074 - ?e)"
  have t: "times_double r (double_of_nat n) = round_to_double ?p ?e"
    by (simp add: times_double_def double_of_nat_exact [OF n])
  have m53: "?m < 2 ^ 53" and e_lo: "- 1074 \<le> ?e"
    using d by (simp_all add: is_double_def)
  have pw: "(0::real) < 2 powi ?e" by simp
  show ?thesis
  proof (cases "?s \<le> 0")
    case True
    then have "double_val (times_double r (double_of_nat n)) = real n * double_val r"
      by (simp add: t round_to_double_def double_val_def)
    also have "\<dots> < real n * 1"
      using r n0 by (intro mult_strict_left_mono) simp_all
    finally show ?thesis by simp
  next
    case False
    then have s: "?s = int (bit_length ?p) - 53" and spos: "0 < ?s"
      using e_lo by simp_all
    define k where "k = nat ?s"
    then have k0: "0 < k" and bl: "bit_length ?p = 53 + k" and sk: "?s = int k"
      using s spos by simp_all
    let ?q = "if 2 ^ (k - 1) < ?p mod 2 ^ k \<or> (?p mod 2 ^ k = 2 ^ (k - 1) \<and> odd (?p div 2 ^ k))
              then ?p div 2 ^ k + 1 else ?p div 2 ^ k"
    have v: "double_val (times_double r (double_of_nat n)) = real ?q * 2 powi (?e + int k)"
      using False sk
      by (simp add: t round_to_double_def Let_def double_val_def flip: k_def)
    have ppos: "0 < ?p"
      using bl by (cases "?p = 0") (simp_all add: bit_length.simps)
    then have mpos: "0 < ?m" by simp
    have "2 ^ (bit_length ?p - 1) \<le> ?p" using ppos by (rule bit_length_lower)
    then have "(2::nat) ^ (52 + k) \<le> ?p" by (simp add: bl)
    also have "?p < 2 ^ 53 * n" using m53 n0 by simp
    finally have "(2::nat) ^ 53 * 2 ^ (k - 1) < 2 ^ 53 * n"
      using k0 by (cases k) (simp_all add: power_add)
    then have half: "2 ^ (k - 1) < n" by simp
    have "?q * 2 ^ k \<le> ?p + 2 ^ (k - 1)" using k0 by (rule rounded_mantissa)
    also have "\<dots> < ?p + n" using half by simp
    finally have q: "?q * 2 ^ k < (?m + 1) * n" by (simp add: algebra_simps)
    have eneg: "?e < 0"
    proof (rule ccontr)
      assume "\<not> ?e < 0"
      then have "(1::real) \<le> 2 powi ?e" by (simp add: power_int_def)
      moreover have "1 \<le> real ?m" using mpos by simp
      ultimately have "1 * 1 \<le> real ?m * 2 powi ?e" by (intro mult_mono) simp_all
      with r show False by (simp add: double_val_def)
    qed
    define j where "j = nat (- ?e)"
    have pj: "(2::real) powi ?e = 1 / 2 ^ j"
      using eneg by (simp add: power_int_def j_def field_simps)
    have "real ?m < 2 ^ j"
      using r by (simp add: double_val_def pj field_simps)
    then have "?m < 2 ^ j"
      by (metis of_nat_less_iff of_nat_numeral of_nat_power)
    then have "?m + 1 \<le> 2 ^ j" by simp
    then have "real (?m + 1) \<le> 2 ^ j"
      by (metis of_nat_le_iff of_nat_numeral of_nat_power)
    then have m1: "real (?m + 1) * 2 powi ?e \<le> 1"
      by (simp add: pj field_simps)
    have "real ?q * 2 powi (?e + int k) = real (?q * 2 ^ k) * 2 powi ?e"
      by (simp add: power_int_add)
    also have "\<dots> < real ((?m + 1) * n) * 2 powi ?e"
      using q pw by (intro mult_strict_right_mono) (simp_all only: of_nat_less_iff)
    also have "\<dots> = real n * (real (?m + 1) * 2 powi ?e)" by (simp add: algebra_simps)
    also have "\<dots> \<le> real n * 1"
      using m1 by (intro mult_left_mono) simp_all
    finally show ?thesis by (simp add: v)
  qed
qed


lemma bit_length_eq:
  assumes "2 ^ k \<le> n" and "n < 2 ^ Suc k"
  shows "bit_length n = Suc k"
proof -
  have "bit_length n \<le> Suc k" using assms(2) by (rule bit_length_le)
  moreover have "\<not> bit_length n \<le> k"
  proof
    assume "bit_length n \<le> k"
    then have "(2::nat) ^ bit_length n \<le> 2 ^ k" by (simp add: power_increasing)
    with bit_length_upper [of n] assms(1) show False by linarith
  qed
  ultimately show ?thesis by simp
qed

lemma three_quarters_double:
  "is_double three_quarters \<and> double_val three_quarters < 1"
  by (simp add: is_double_def double_val_def three_quarters_def)

text \<open>
  Rounding decides the index: for seven ideas and the double 0.5714285714285714 the exact
  product lies below 4, the product of the doubles is 4, and the index is 4.
\<close>

lemma times_double_rounds_up:
  "times_double \<lparr>mantissa = 5146971002709138, exponent = - 53\<rparr> (double_of_nat 7)
     = \<lparr>mantissa = 9007199254740992, exponent = - 51\<rparr>"
proof -
  have "bit_length 36028797018963966 = Suc 54"
    by (rule bit_length_eq) simp_all
  then have b: "bit_length 36028797018963966 = 55"
    by simp
  have n: "double_of_nat 7 = \<lparr>mantissa = 7, exponent = 0\<rparr>"
    by (rule double_of_nat_exact) simp
  show ?thesis
    by (simp add: times_double_def round_to_double_def b n Let_def)
qed

lemma floor_times_double_rounds_up:
  "floor_double (times_double \<lparr>mantissa = 5146971002709138, exponent = - 53\<rparr> (double_of_nat 7)) = 4"
  by (simp add: times_double_rounds_up floor_double_def)

lemma random_index_in_bounds:
  assumes "is_double r" and "double_val r < 1" and "0 < n" and "n < 2 ^ 53"
  shows "0 \<le> floor_double (times_double r (double_of_nat n))"
    and "floor_double (times_double r (double_of_nat n)) < int n"
proof -
  show "0 \<le> floor_double (times_double r (double_of_nat n))"
    by (simp add: floor_double_def)
  have "double_val (times_double r (double_of_nat n)) < real n"
    using assms by (rule times_length_below)
  then have "\<lfloor>double_val (times_double r (double_of_nat n))\<rfloor> < int n"
    by (simp add: floor_less_iff)
  then show "floor_double (times_double r (double_of_nat n)) < int n"
    by (simp only: floor_double_val)
qed

lemma length_filteredIdeas: "length (filteredIdeas xs c) \<le> length xs"
  by (simp add: filteredIdeas_def)

text \<open>
  Claim C10. Let Math.random() return a double that is at least 0 and below 1, and let the
  list of ideas be an array (its length is below 2 ^ 32). With no idea in the selected
  category getRandomIdea shows the notification that none was found and selects nothing.
  Otherwise the index it computes, the floor of the rounded product of the two doubles, lies
  within the filtered list, no read goes outside the array, and the idea selected and
  announced is an element of the filtered list.
\<close>

theorem getRandomIdea_in_bounds:
  assumes "is_double r" and "double_val r < 1" and "length (ideas st) < 2 ^ 32"
  shows "(filteredIdeas (ideas st) (categoryFilter_i st) = []
            \<longrightarrow> getRandomIdea st r w = Inr (None, show_toast Toast_no_ideas w))
         \<and> (filteredIdeas (ideas st) (categoryFilter_i st) \<noteq> []
            \<longrightarrow> 0 \<le> floor_double (times_double r
                      (double_of_nat (length (filteredIdeas (ideas st) (categoryFilter_i st)))))
                \<and> floor_double (times_double r
                      (double_of_nat (length (filteredIdeas (ideas st) (categoryFilter_i st)))))
                    < int (length (filteredIdeas (ideas st) (categoryFilter_i st)))
                \<and> (\<exists>idea \<in> set (filteredIdeas (ideas st) (categoryFilter_i st)).
                      getRandomIdea st r w
                        = Inr (Some idea,
                               show_toast (Toast_random_idea (title_i idea) (category_i idea)) w)))"
proof -
  let ?fi = "filteredIdeas (ideas st) (categoryFilter_i st)"
  let ?k = "floor_double (times_double r (double_of_nat (length ?fi)))"
  have e: "?fi = [] \<longrightarrow> getRandomIdea st r w = Inr (None, show_toast Toast_no_ideas w)"
    by (simp add: getRandomIdea_def)
  have n: "?fi \<noteq> [] \<longrightarrow> 0 \<le> ?k \<and> ?k < int (length ?fi)
             \<and> (\<exists>idea \<in> set ?fi. getRandomIdea st r w
                   = Inr (Some idea, show_toast (Toast_random_idea (title_i idea) (category_i idea)) w))"
  proof
    assume ne: "?fi \<noteq> []"
    then have pos: "0 < length ?fi" by simp
    have "length ?fi \<le> length (ideas st)" by (rule length_filteredIdeas)
    with assms(3) have "length ?fi < 2 ^ 32" by simp
    also have "(2::nat) ^ 32 < 2 ^ 53" by simp
    finally have small: "length ?fi < 2 ^ 53" .
    have k0: "0 \<le> ?k" and k1: "?k < int (length ?fi)"
      using assms(1,2) pos small by (rule random_index_in_bounds)+
    have "nat ?k < length ?fi"
      using k0 k1 by linarith
    then have m: "?fi ! nat ?k \<in> set ?fi"
      by (rule nth_mem)
    have "getRandomIdea st r w
            = Inr (Some (?fi ! nat ?k),
                   show_toast (Toast_random_idea (title_i (?fi ! nat ?k)) (category_i (?fi ! nat ?k))) w)"
      using ne k0 k1 by (simp add: getRandomIdea_def Let_def)
    with k0 k1 m show "0 \<le> ?k \<and> ?k < int (length ?fi)
             \<and> (\<exists>idea \<in> set ?fi. getRandomIdea st r w
                   = Inr (Some idea, show_toast (Toast_random_idea (title_i idea) (category_i idea)) w))"
      by blast
  qed
  from e n show ?thesis by blast
qed

theorem getRandomIdea_in_bounds_witness:
  "is_double three_quarters \<and> double_val three_quarters < 1
   \<and> length (ideas (ideas_view [picnic, climbing] ''Kultur'')) < 2 ^ 32
   \<and> length (ideas (ideas_view [picnic, climbing] ''all'')) < 2 ^ 32
   \<and> filteredIdeas (ideas (ideas_view [picnic, climbing] ''Kultur''))
        (categoryFilter_i (ideas_view [picnic, climbing] ''Kultur'')) = []
   \<and> getRandomIdea (ideas_view [picnic, climbing] ''Kultur'') three_quarters (new_world ())
       = Inr (None, show_toast Toast_no_ideas (new_world ()))
   \<and> filteredIdeas (ideas (ideas_view [picnic, climbing] ''all''))
        (categoryFilter_i (ideas_view [picnic, climbing] ''all'')) \<noteq> []
   \<and> (\<exists>idea \<in> set [picnic, climbing].
         getRandomIdea (ideas_view [picnic, climbing] ''all'') three_quarters (new_world ())
           = Inr (Some idea, show_toast (Toast_random_idea (title_i idea) (category_i idea))
                               (new_world ())))"
proof -
  have a: "is_double three_quarters" and b: "double_val three_quarters < 1"
    using three_quarters_double by simp_all
  have l1: "length (ideas (ideas_view [picnic, climbing] ''Kultur'')) < 2 ^ 32"
    and l2: "length (ideas (ideas_view [picnic, climbing] ''all'')) < 2 ^ 32"
    by (simp_all add: ideas_view_def)
  have c: "filteredIdeas (ideas (ideas_view [picnic, climbing] ''Kultur''))
             (categoryFilter_i (ideas_view [picnic, climbing] ''Kultur'')) = []"
    by (simp add: ideas_view_def filteredIdeas_def picnic_def climbing_def)
  have d: "filteredIdeas (ideas (ideas_view [picnic, climbing] ''all''))
             (categoryFilter_i (ideas_view [picnic, climbing] ''all'')) = [picnic, climbing]"
    by (simp add: ideas_view_def filteredIdeas_def)
  show ?thesis
    using a b l1 l2 c d
      getRandomIdea_in_bounds [OF a b l1, of "new_world ()"]
      getRandomIdea_in_bounds [OF a b l2, of "new_world ()"]
    by simp
qed

end
